theory Spec2Isabelle
  imports Complex_Main
begin

section \<open>Conventions of the embedding\<close>

text \<open>
  The decision pipeline of the Nexus backend (\<^verbatim>\<open>app/services\<close>) is embedded function by
  function. Python floats are read as real numbers (no rounding, no NaN, no infinities), Python
  ints as \<open>int\<close>, a naive UTC \<^verbatim>\<open>datetime\<close> as its number of microseconds since the epoch, a
  \<^verbatim>\<open>date\<close> as its number of days since the epoch. A pandas frame of candles is the list of its
  rows, a dict is the list of its items in insertion order. The thresholds that the services
  read from \<^verbatim>\<open>settings\<close> are not declared in \<^verbatim>\<open>config.py\<close>; they are the fields of a record
  that every service takes as its first argument. The clock read by \<^verbatim>\<open>datetime.utcnow()\<close> is
  an argument \<open>now\<close>. The table \<^verbatim>\<open>daily_stats\<close> is a map from (user, day) to its row, passed
  in and returned.

  Where numpy computes NaN (the mean of an empty array, the logarithm of a negative number) the
  functions below still return a real number. The embedding therefore speaks for frames with
  at least one candle and positive closes, and for at least one timeframe; a property that
  depends on the numbers computed there assumes as much.

  A message built by an f-string is the list of its pieces: the literal text, and each
  formatted value with the format that the source applies to it.
\<close>

datatype piece =
  Str string          \<comment> \<open>literal text, or a string value inserted as it is\<close>
  | Fixed2 real       \<comment> \<open>\<^verbatim>\<open>{x:.2f}\<close>\<close>
  | Num int           \<comment> \<open>\<^verbatim>\<open>{n}\<close> for an int\<close>
  | IsoTime int       \<comment> \<open>\<^verbatim>\<open>{t.isoformat()}\<close> for a datetime\<close>

type_synonym message = "piece list"

type_synonym datetime = int

datatype error = ValueError | TypeError

record settings =
  trend_slope_threshold :: real
  high_vol_percentile_threshold :: real
  max_risk_per_trade_pct :: real
  max_trades_per_day :: int
  cooldown_minutes_after_two_losses :: int

section \<open>numpy and pandas operations used by the classifier\<close>

definition mean :: "real list \<Rightarrow> real" where
  "mean xs = sum_list xs / real (length xs)"

text \<open>\<^verbatim>\<open>np.std\<close>: the population standard deviation.\<close>

definition np_std :: "real list \<Rightarrow> real" where
  "np_std xs = sqrt (mean (map (\<lambda>x. (x - mean xs)\<^sup>2) xs))"

text \<open>The standard deviation of pandas (\<^verbatim>\<open>ddof=1\<close>).\<close>

definition sample_std :: "real list \<Rightarrow> real" where
  "sample_std xs = sqrt (sum_list (map (\<lambda>x. (x - mean xs)\<^sup>2) xs) / (real (length xs) - 1))"

text \<open>\<^verbatim>\<open>np.diff\<close>: first differences.\<close>

definition np_diff :: "real list \<Rightarrow> real list" where
  "np_diff xs = map (\<lambda>(a, b). b - a) (zip xs (tl xs))"

text \<open>\<^verbatim>\<open>a[-n:]\<close>: the last \<open>n\<close> entries, all of them when \<open>n = 0\<close> or \<open>n\<close> exceeds the length.\<close>

definition lastn :: "nat \<Rightarrow> 'a list \<Rightarrow> 'a list" where
  "lastn n xs = (if n = 0 then xs else drop (length xs - n) xs)"

text \<open>
  \<^verbatim>\<open>pd.Series(xs).rolling(w).std().dropna().values\<close>: one sample standard deviation for each
  full window of \<open>w\<close> consecutive entries; the first \<open>w - 1\<close> positions are undefined and dropped.
\<close>

definition rolling_std :: "nat \<Rightarrow> real list \<Rightarrow> real list" where
  "rolling_std w xs =
     (if length xs < w then []
      else map (\<lambda>i. sample_std (take w (drop i xs))) [0 ..< Suc (length xs - w)])"

text \<open>
  \<^verbatim>\<open>np.quantile(a, q)\<close> with the default linear interpolation, for a non-empty array: it raises
  \<^verbatim>\<open>ValueError\<close> unless \<open>0 \<le> q \<le> 1\<close>.
\<close>

definition np_quantile :: "real list \<Rightarrow> real \<Rightarrow> error + real" where
  "np_quantile a q =
     (if \<not> (0 \<le> q \<and> q \<le> 1) then Inl ValueError
      else
        let s = sort a;
            n = length s;
            h = q * real (n - 1);
            lo = nat \<lfloor>h\<rfloor>;
            hi = min (lo + 1) (n - 1);
            g = h - real lo
        in Inr (s ! lo + g * (s ! hi - s ! lo)))"

definition np_clip :: "real \<Rightarrow> real \<Rightarrow> real \<Rightarrow> real" where
  "np_clip a lo hi = min (max a lo) hi"

section \<open>regime.py\<close>

record candle =
  ts :: int
  "open" :: real
  high :: real
  low :: real
  close :: real
  volume :: real

record RegimeResult =
  regime :: string
  volatility_state :: string
  slope :: real
  vol :: real

definition classify :: "settings \<Rightarrow> candle list \<Rightarrow> error + RegimeResult" where
  "classify cfg candles =
     (let logp = map (\<lambda>c. ln (close c + 0.000000001)) candles;
          window = min 120 (length logp);
          y = lastn window logp;
          x = map real [0 ..< window];
          x_mean = mean x;
          y_mean = mean y;
          slope = sum_list (map (\<lambda>(a, b). (a - x_mean) * (b - y_mean)) (zip x y))
                  / (sum_list (map (\<lambda>a. (a - x_mean)\<^sup>2) x) + 0.000000001);
          rets = np_diff logp;
          vol = (if length rets \<ge> window then np_std (lastn window rets)
                 else if length rets \<noteq> 0 then np_std rets else 0);
          regime = (if \<bar>slope\<bar> \<ge> trend_slope_threshold cfg then ''trend'' else ''range'');
          result = (\<lambda>v. \<lparr>regime = regime, volatility_state = v, slope = slope, vol = vol\<rparr>)
      in if length rets > 60 then
           (let vols = rolling_std 30 rets
            in if length vols > 10 then
                 (case np_quantile vols (high_vol_percentile_threshold cfg) of
                    Inl e \<Rightarrow> Inl e
                  | Inr thr \<Rightarrow> Inr (result (if vol \<ge> thr then ''high'' else ''low'')))
               else Inr (result ''low''))
         else Inr (result ''low''))"

section \<open>regime_multi.py\<close>

record MultiTFRegime =
  final_regime :: string
  final_volatility :: string
  confidence :: real
  per_tf :: "(string \<times> RegimeResult) list"

definition combine :: "(string \<times> RegimeResult) list \<Rightarrow> MultiTFRegime" where
  "combine items =
     (let regimes = map (\<lambda>(tf, r). regime r) items;
          vols = map (\<lambda>(tf, r). volatility_state r) items;
          trend_votes = int (length (filter (\<lambda>x. x = ''trend'') regimes));
          range_votes = int (length regimes) - trend_votes;
          final_regime = (if trend_votes > range_votes then ''trend'' else ''range'');
          high_vol_votes = int (length (filter (\<lambda>x. x = ''high'') vols));
          final_vol = (if high_vol_votes \<ge> 2 then ''high'' else ''low'');
          agree_regime = real_of_int (max trend_votes range_votes)
                         / real_of_int (max 1 (int (length regimes)));
          agree_vol = real_of_int (if final_vol = ''high'' then high_vol_votes
                                   else int (length vols) - high_vol_votes)
                      / real_of_int (max 1 (int (length vols)));
          slopes = map (\<lambda>(tf, r). \<bar>slope r\<bar>) items;
          slope_bonus = np_clip (mean slopes / 0.002) 0 1;
          confidence = np_clip (0.55 * agree_regime + 0.25 * agree_vol + 0.20 * slope_bonus) 0 1
      in \<lparr>final_regime = final_regime, final_volatility = final_vol,
          confidence = confidence, per_tf = items\<rparr>)"

section \<open>session.py\<close>

record session =
  name :: string
  liquidity :: string
  risk_multiplier :: real
  "note" :: string

definition asia :: session where
  "asia = \<lparr>name = ''ASIA'', liquidity = ''low'', risk_multiplier = 0.7,
            note = ''Lower volatility, prone to fake moves.''\<rparr>"

definition eu :: session where
  "eu = \<lparr>name = ''EU'', liquidity = ''medium'', risk_multiplier = 0.9,
          note = ''Trend formation and structure building.''\<rparr>"

definition us :: session where
  "us = \<lparr>name = ''US'', liquidity = ''high'', risk_multiplier = 1.0,
          note = ''Highest liquidity and strongest moves.''\<rparr>"

definition weekend :: session where
  "weekend = \<lparr>name = ''WEEKEND'', liquidity = ''very low'', risk_multiplier = 0.5,
               note = ''Avoid trading unless exceptional setup.''\<rparr>"

text \<open>\<^verbatim>\<open>SessionService.detect\<close>, as a function of the UTC hour that it reads from the clock.\<close>

definition detect :: "int \<Rightarrow> session" where
  "detect hour =
     (if 0 \<le> hour \<and> hour < 7 then asia
      else if 7 \<le> hour \<and> hour < 13 then eu
      else if 13 \<le> hour \<and> hour < 21 then us
      else weekend)"

section \<open>risk.py\<close>

record RiskResult =
  final_risk_pct :: real
  position_size_usd :: real
  reasons :: "message list"

definition compute :: "settings \<Rightarrow> real \<Rightarrow> real \<Rightarrow> real \<Rightarrow> string \<Rightarrow> RiskResult" where
  "compute cfg account_equity intended_risk_pct stop_distance_pct volatility =
     (let reasons0 = [];
          risk_pct0 = min intended_risk_pct (max_risk_per_trade_pct cfg);
          reasons1 = (if intended_risk_pct > max_risk_per_trade_pct cfg
                      then reasons0 @ [[Str ''Risk capped to '', Fixed2 (max_risk_per_trade_pct cfg),
                                        Str ''% (beginner-safe limit).'']]
                      else reasons0);
          risk_pct = (if volatility = ''high'' then min risk_pct0 0.5 else risk_pct0);
          reasons2 = (if volatility = ''high''
                      then reasons1 @ [[Str (''High volatility detected ''
                                             @ [CHR 0xE2, CHR 0x86, CHR 0x92]
                                             @ '' risk reduced to 0.50%.'')]]
                      else reasons1);
          stop_distance = max stop_distance_pct 0.05;
          position_size = account_equity * (risk_pct / 100) / (stop_distance / 100)
      in \<lparr>final_risk_pct = risk_pct, position_size_usd = position_size, reasons = reasons2\<rparr>)"

section \<open>behavior.py\<close>

record DailyStat =
  user_id :: string
  day :: int
  trades_count :: int
  wins :: int
  losses :: int
  realized_pnl :: real
  consecutive_losses :: int
  cooldown_until :: "datetime option"

type_synonym db = "string \<times> int \<Rightarrow> DailyStat option"

text \<open>\<^verbatim>\<open>now.date()\<close> and \<^verbatim>\<open>timedelta(minutes=m)\<close>, in days and in microseconds.\<close>

definition date :: "datetime \<Rightarrow> int" where
  "date now = now div 86400000000"

definition timedelta_minutes :: "int \<Rightarrow> int" where
  "timedelta_minutes m = m * 60000000"

text \<open>\<^verbatim>\<open>DailyStat(user_id=user_id, day=day)\<close>: every other column takes its default.\<close>

definition new_daily :: "string \<Rightarrow> int \<Rightarrow> DailyStat" where
  "new_daily uid d =
     \<lparr>user_id = uid, day = d, trades_count = 0, wins = 0, losses = 0, realized_pnl = 0,
      consecutive_losses = 0, cooldown_until = None\<rparr>"

definition get_or_create_daily :: "db \<Rightarrow> string \<Rightarrow> int \<Rightarrow> DailyStat \<times> db" where
  "get_or_create_daily d uid dy =
     (case d (uid, dy) of
        Some row \<Rightarrow> (row, d)
      | None \<Rightarrow> (let ds = new_daily uid dy in (ds, d((uid, dy) \<mapsto> ds))))"

definition update_on_trade_close :: "settings \<Rightarrow> db \<Rightarrow> string \<Rightarrow> real \<Rightarrow> datetime \<Rightarrow> db" where
  "update_on_trade_close cfg d uid pnl now =
     (let today = date now;
          (ds, d1) = get_or_create_daily d uid today;
          ds1 = ds\<lparr>trades_count := trades_count ds + 1\<rparr>;
          ds2 = ds1\<lparr>realized_pnl := realized_pnl ds1 + pnl\<rparr>;
          ds3 = (if pnl > 0
                 then ds2\<lparr>wins := wins ds2 + 1, consecutive_losses := 0\<rparr>
                 else ds2\<lparr>losses := losses ds2 + 1,
                          consecutive_losses := consecutive_losses ds2 + 1\<rparr>);
          ds4 = (if consecutive_losses ds3 \<ge> 2
                 then ds3\<lparr>cooldown_until :=
                            Some (now + timedelta_minutes (cooldown_minutes_after_two_losses cfg))\<rparr>
                 else ds3)
      in d1((uid, today) \<mapsto> ds4))"

record BehaviorResult =
  allowed :: bool
  reasons :: "message list"
  suggested_actions :: "message list"
  cooldown_until :: "datetime option"

definition check :: "settings \<Rightarrow> db \<Rightarrow> string \<Rightarrow> datetime \<Rightarrow> BehaviorResult \<times> db" where
  "check cfg d uid now =
     (let today = date now;
          (ds, d1) = get_or_create_daily d uid today;
          active = (case DailyStat.cooldown_until ds of
                      Some cu \<Rightarrow> if now < cu then Some cu else None
                    | None \<Rightarrow> None)
      in case active of
           Some cu \<Rightarrow>
             (\<lparr>allowed = False,
               reasons = [[Str ''Cooldown active until '', IsoTime cu, Str ''Z.'']],
               suggested_actions = [[Str ''Wait out the cooldown. Review last two trades.'']],
               cooldown_until = Some cu\<rparr>, d1)
         | None \<Rightarrow>
             if trades_count ds \<ge> max_trades_per_day cfg then
               (\<lparr>allowed = False,
                 reasons = [[Str ''Max trades/day reached ('', Num (trades_count ds), Str ''/'',
                             Num (max_trades_per_day cfg), Str '').'']],
                 suggested_actions = [[Str ''Stop trading for today. Review performance.'']],
                 cooldown_until = None\<rparr>, d1)
             else (\<lparr>allowed = True, reasons = [], suggested_actions = [],
                    cooldown_until = None\<rparr>, d1))"

section \<open>decision.py\<close>

text \<open>
  The class is declared \<^verbatim>\<open>@dataclass class DecisionResult(BaseModel)\<close> with ten annotated
  fields, the last two written with \<^verbatim>\<open>= None\<close>. The pydantic metaclass collects the fields
  when the class is created and takes the two defaults off the class, so the decorator
  \<^verbatim>\<open>dataclass\<close>, which runs afterwards, finds no default for any field and generates an
  \<^verbatim>\<open>__init__\<close> with ten required parameters. A call binds its keyword arguments first: when
  \<open>session_name\<close> or \<open>session_confidence\<close> is not passed it raises \<^verbatim>\<open>TypeError\<close> and no object
  is made. No call in the source passes them, so only this binding step matters below.
\<close>

record DecisionResult =
  decision :: string
  quality_score :: real
  risk_pct :: real
  position_size_usd :: real
  reasons :: "message list"
  suggested_actions :: "message list"
  market_regime :: message
  volatility_state :: string
  session_name :: "string option"
  session_confidence :: "real option"

text \<open>
  The keyword arguments of one call \<^verbatim>\<open>DecisionResult(...)\<close>. For the last two parameters
  \<open>None\<close> says that the keyword is not passed, and \<open>Some v\<close> that it is passed with the value \<open>v\<close>
  (which may be Python's \<^verbatim>\<open>None\<close>).
\<close>

record DecisionCall =
  kw_decision :: string
  kw_quality_score :: real
  kw_risk_pct :: real
  kw_position_size_usd :: real
  kw_reasons :: "message list"
  kw_suggested_actions :: "message list"
  kw_market_regime :: message
  kw_volatility_state :: string
  kw_session_name :: "string option option"
  kw_session_confidence :: "real option option"

definition DecisionResult_init :: "DecisionCall \<Rightarrow> error + DecisionResult" where
  "DecisionResult_init call =
     (case kw_session_name call of
        None \<Rightarrow> Inl TypeError
      | Some sn \<Rightarrow>
          (case kw_session_confidence call of
             None \<Rightarrow> Inl TypeError
           | Some sc \<Rightarrow>
               Inr \<lparr>decision = kw_decision call, quality_score = kw_quality_score call,
                    risk_pct = kw_risk_pct call, position_size_usd = kw_position_size_usd call,
                    reasons = kw_reasons call, suggested_actions = kw_suggested_actions call,
                    market_regime = kw_market_regime call,
                    volatility_state = kw_volatility_state call,
                    session_name = sn, session_confidence = sc\<rparr>))"

text \<open>
  \<^verbatim>\<open>str.lower\<close> on a string held as its UTF-8 bytes. An upper-case ASCII letter gets bit 5
  set, and the Kelvin sign U+212A (bytes E2 84 AA), the one character outside ASCII whose lower
  case is an ASCII letter, becomes \<open>k\<close>. Every other character outside ASCII is left as it is:
  its lower case is outside ASCII too, so the result equals an ASCII word exactly when Python's
  does.
\<close>

fun lower_char :: "char \<Rightarrow> char" where
  "lower_char (Char b0 b1 b2 b3 b4 b5 b6 b7) =
     (let n = (of_char (Char b0 b1 b2 b3 b4 b5 b6 b7) :: nat)
      in if 65 \<le> n \<and> n \<le> 90 then Char b0 b1 b2 b3 b4 True b6 b7
         else Char b0 b1 b2 b3 b4 b5 b6 b7)"

fun lower :: "string \<Rightarrow> string" where
  "lower [] = []"
| "lower (a # b # c # s) =
     (if a = CHR 0xE2 \<and> b = CHR 0x84 \<and> c = CHR 0xAA then CHR ''k'' # lower s
      else lower_char a # lower (b # c # s))"
| "lower (a # s) = lower_char a # lower s"

definition strategy_fit_score :: "string \<Rightarrow> string \<Rightarrow> string \<Rightarrow> real \<times> message list" where
  "strategy_fit_score rgm volatility strategy =
     (let reasons0 = [];
          score0 = 1;
          hit1 = (lower strategy = ''breakout'' \<and> rgm = ''RANGE'');
          score1 = (if hit1 then score0 - 0.35 else score0);
          reasons1 = (if hit1
                      then reasons0 @ [[Str ''Breakout strategy underperforms in range markets.'']]
                      else reasons0);
          hit2 = (volatility = ''high'');
          score2 = (if hit2 then score1 - 0.15 else score1);
          reasons2 = (if hit2
                      then reasons1 @ [[Str ''High volatility increases false signals.'']]
                      else reasons1);
          hit3 = (volatility = ''low'');
          score3 = (if hit3 then score2 - 0.10 else score2);
          reasons3 = (if hit3
                      then reasons2 @ [[Str ''Low volatility reduces momentum follow-through.'']]
                      else reasons2)
      in (max score3 0, reasons3))"

text \<open>
  The dict comprehension over \<^verbatim>\<open>candles_by_tf.items()\<close>: the timeframes are classified in
  order, and the first exception ends the comprehension.
\<close>

fun classify_all :: "settings \<Rightarrow> (string \<times> candle list) list \<Rightarrow> error + (string \<times> RegimeResult) list" where
  "classify_all cfg [] = Inr []"
| "classify_all cfg ((tf, df) # rest) =
     (case classify cfg df of
        Inl e \<Rightarrow> Inl e
      | Inr r \<Rightarrow> (case classify_all cfg rest of
                    Inl e \<Rightarrow> Inl e
                  | Inr rs \<Rightarrow> Inr ((tf, r) # rs)))"

definition regime_label :: "MultiTFRegime \<Rightarrow> message" where
  "regime_label multi = [Str (final_regime multi), Str '' (conf '', Fixed2 (confidence multi), Str '')'']"

text \<open>
  \<^verbatim>\<open>DecisionService.check_trade\<close>, up to the statement \<^verbatim>\<open>return DecisionResult(...)\<close> that
  it reaches: the keyword arguments of that call, evaluated, or the exception raised before
  it. The behaviour check runs first and may create today's row, so the table is returned also
  when a classification raises. Every call passes the same eight keywords and neither
  \<open>session_name\<close> nor \<open>session_confidence\<close>.
\<close>

definition check_trade_call ::
  "settings \<Rightarrow> db \<Rightarrow> (string \<times> candle list) list \<Rightarrow> string \<Rightarrow> string \<Rightarrow> string \<Rightarrow> real \<Rightarrow> real \<Rightarrow> real
     \<Rightarrow> string \<Rightarrow> session \<Rightarrow> datetime \<Rightarrow> (error + DecisionCall) \<times> db" where
  "check_trade_call cfg d candles_by_tf uid symbol strategy account_equity intended_risk_pct
       stop_distance_pct timeframe sess now =
     (let (beh, d1) = check cfg d uid now
      in case classify_all cfg candles_by_tf of
           Inl e \<Rightarrow> (Inl e, d1)
         | Inr items \<Rightarrow>
            (let multi = combine items;
                 risk0 = compute cfg account_equity intended_risk_pct stop_distance_pct
                           (final_volatility multi);
                 risk = risk0\<lparr>final_risk_pct := final_risk_pct risk0 * risk_multiplier sess\<rparr>;
                 result = (\<lambda>dec q rs sug.
                             \<lparr>kw_decision = dec, kw_quality_score = q,
                              kw_risk_pct = final_risk_pct risk,
                              kw_position_size_usd = RiskResult.position_size_usd risk,
                              kw_reasons = rs, kw_suggested_actions = sug,
                              kw_market_regime = regime_label multi,
                              kw_volatility_state = final_volatility multi,
                              kw_session_name = None, kw_session_confidence = None\<rparr>)
             in if \<not> allowed beh then
                  (Inr (result ''BLOCK'' 0
                          (BehaviorResult.reasons beh @ RiskResult.reasons risk)
                          (BehaviorResult.suggested_actions beh
                             @ [[Str ''Switch to paper review mode.'']])), d1)
                else
                  (let (q, fit_reasons) =
                         strategy_fit_score (final_regime multi) (final_volatility multi) strategy;
                       reasons0 = fit_reasons @ RiskResult.reasons risk;
                       suggested0 = [];
                       unclear = (confidence multi < 0.45);
                       reasons1 = (if unclear
                                   then reasons0 @ [[Str ''Low regime confidence ('',
                                                     Fixed2 (confidence multi),
                                                     Str ('') '' @ [CHR 0xE2, CHR 0x86, CHR 0x92]
                                                          @ '' conditions unclear.'')]]
                                   else reasons0)
                   in if unclear \<and> q < 0.55 then
                        (Inr (result ''BLOCK'' q reasons1
                                [[Str ''Wait for clearer market structure.''],
                                 [Str ''Switch timeframe to 15m for confirmation.'']]), d1)
                      else
                        (let suggested1 =
                               (if unclear
                                then suggested0 @ [[Str ''Proceed only with extra confirmation; consider reducing size.'']]
                                else suggested0)
                         in if q < 0.35 then
                              (Inr (result ''BLOCK'' q
                                      (reasons1 @ [[Str ''Trade quality score too low.'']])
                                      [[Str ''Wait for a clearer setup.''],
                                       [Str ''Consider changing strategy for the current regime.'']]), d1)
                            else
                              (let dec = (if q < 0.55 then ''WARN'' else ''ALLOW'');
                                   suggested2 =
                                     (if q < 0.55
                                      then suggested1 @ [[Str ''Lower position size or wait for confirmation.'']]
                                      else suggested1);
                                   suggested3 =
                                     (if final_volatility multi = ''high''
                                      then suggested2 @ [[Str ''Use wider stops or smaller size; expect faster swings.'']]
                                      else suggested2);
                                   suggested4 =
                                     (if suggested3 = []
                                      then [[Str ''Proceed only if your setup matches your plan and stop is respected.'']]
                                      else suggested3)
                               in (Inr (result dec q reasons1 suggested4), d1))))))"

text \<open>
  \<^verbatim>\<open>DecisionService.check_trade\<close>: the call that it reaches is made, and its result or its
  exception is the outcome.
\<close>

definition check_trade ::
  "settings \<Rightarrow> db \<Rightarrow> (string \<times> candle list) list \<Rightarrow> string \<Rightarrow> string \<Rightarrow> string \<Rightarrow> real \<Rightarrow> real \<Rightarrow> real
     \<Rightarrow> string \<Rightarrow> session \<Rightarrow> datetime \<Rightarrow> (error + DecisionResult) \<times> db" where
  "check_trade cfg d candles_by_tf uid symbol strategy account_equity intended_risk_pct
       stop_distance_pct timeframe sess now =
     (let (reached, d1) = check_trade_call cfg d candles_by_tf uid symbol strategy account_equity
                            intended_risk_pct stop_distance_pct timeframe sess now
      in case reached of
           Inl e \<Rightarrow> (Inl e, d1)
         | Inr call \<Rightarrow> (DecisionResult_init call, d1))"

section \<open>The table over time, and example inputs\<close>

text \<open>
  The table \<^verbatim>\<open>daily_stats\<close> starts empty, and the application writes it through three
  calls only: \<^verbatim>\<open>check\<close> (from \<^verbatim>\<open>check_trade\<close>), \<^verbatim>\<open>update_on_trade_close\<close> (from the
  close endpoint) and \<^verbatim>\<open>get_or_create_daily\<close> (from the daily report).
\<close>

inductive reachable :: "settings \<Rightarrow> db \<Rightarrow> bool" for cfg :: settings where
  start: "reachable cfg (\<lambda>k. None)"
| checked: "reachable cfg d \<Longrightarrow> reachable cfg (snd (check cfg d uid now))"
| closed: "reachable cfg d \<Longrightarrow> reachable cfg (update_on_trade_close cfg d uid pnl now)"
| reported: "reachable cfg d \<Longrightarrow> reachable cfg (snd (get_or_create_daily d uid dy))"

text \<open>
  Settings with the thresholds that the specification quotes as examples, three trades a day
  and a cooldown of thirty minutes.
\<close>

definition example_settings :: settings where
  "example_settings =
     \<lparr>trend_slope_threshold = 0.00025, high_vol_percentile_threshold = 0.80,
      max_risk_per_trade_pct = 1.0, max_trades_per_day = 3,
      cooldown_minutes_after_two_losses = 30\<rparr>"

definition flat_candle :: "real \<Rightarrow> candle" where
  "flat_candle c = \<lparr>ts = 0, open = c, high = c, low = c, close = c, volume = 1\<rparr>"

section \<open>The strategy fit scorer\<close>

lemma fit_score_not_RANGE:
  "rgm \<noteq> ''RANGE'' \<Longrightarrow>
   fst (strategy_fit_score rgm v s) = (if v = ''high'' then 0.85 else if v = ''low'' then 0.9 else 1)"
  by (simp add: strategy_fit_score_def)

lemma fit_score_upper_case_RANGE:
  "strategy_fit_score ''RANGE'' ''low'' ''breakout'' =
     (0.55, [[Str ''Breakout strategy underperforms in range markets.''],
             [Str ''Low volatility reduces momentum follow-through.'']])"
  by (simp add: strategy_fit_score_def)

text \<open>
  C1. A breakout strategy scored against a Range regime with Low volatility should get
  \<open>1.0 - 0.35 - 0.10 = 0.55\<close> and one reason for each of the two deductions. The regime that
  the classifier and the aggregator produce for Range is the string \<^verbatim>\<open>"range"\<close>, while the
  scorer compares with \<^verbatim>\<open>"RANGE"\<close>: on \<^verbatim>\<open>"range"\<close> the breakout deduction is not applied, the
  score is \<open>0.9\<close> and a single reason is recorded.
\<close>

theorem fit_score_breakout_range_low:
  "strategy_fit_score ''range'' ''low'' ''breakout'' =
     (0.9, [[Str ''Low volatility reduces momentum follow-through.'']])"
  by (simp add: strategy_fit_score_def)

section \<open>The risk sizer\<close>

text \<open>
  C7. With the account equity, the intended risk and the volatility state fixed, the position
  size that the risk sizer returns never grows when the stop distance grows. The sizer's inputs
  are non-negative (the request schema admits positive values only), and so is the configured
  cap on the risk.
\<close>

theorem position_size_antitone_in_stop:
  assumes "0 \<le> account_equity" and "0 \<le> intended_risk_pct"
    and "0 \<le> max_risk_per_trade_pct cfg" and "stop1 \<le> stop2"
  shows "RiskResult.position_size_usd (compute cfg account_equity intended_risk_pct stop2 v)
         \<le> RiskResult.position_size_usd (compute cfg account_equity intended_risk_pct stop1 v)"
proof -
  define rp where
    "rp = (if v = ''high'' then min (min intended_risk_pct (max_risk_per_trade_pct cfg)) 0.5
           else min intended_risk_pct (max_risk_per_trade_pct cfg))"
  have rp: "0 \<le> rp" using assms by (simp add: rp_def)
  have num: "0 \<le> account_equity * (rp / 100)" using rp assms(1) by simp
  have d1: "0 < max stop1 0.05 / 100" by simp
  have d12: "max stop1 0.05 / 100 \<le> max stop2 0.05 / 100" using assms(4) by simp
  have "account_equity * (rp / 100) / (max stop2 0.05 / 100)
        \<le> account_equity * (rp / 100) / (max stop1 0.05 / 100)"
    using num d1 d12 by (intro frac_le) simp_all
  then show ?thesis by (simp add: compute_def Let_def rp_def)
qed

theorem position_size_antitone_in_stop_witness:
  "RiskResult.position_size_usd (compute example_settings 10000 2 2 ''low'') = 5000
   \<and> RiskResult.position_size_usd (compute example_settings 10000 2 1 ''low'') = 10000
   \<and> RiskResult.position_size_usd (compute example_settings 10000 2 2 ''low'')
     \<le> RiskResult.position_size_usd (compute example_settings 10000 2 1 ''low'')"
  using position_size_antitone_in_stop [of 10000 2 example_settings 1 2 "''low''"]
  by (simp add: example_settings_def compute_def)

section \<open>The multi-timeframe aggregator\<close>

text \<open>
  C8. The aggregator takes the majority vote on the regime and resolves a tie to Range: the
  final regime is Trend exactly when the timeframes that report Trend outnumber the others, and
  for two timeframes, one Trend and one Range, in either order, it is Range.
\<close>

theorem combine_majority_ties_to_range:
  assumes "regime r1 = ''trend''" and "regime r2 = ''range''"
  shows "final_regime (combine items) =
           (if length (filter (\<lambda>(tf, r). regime r = ''trend'') items)
                > length (filter (\<lambda>(tf, r). regime r \<noteq> ''trend'') items)
            then ''trend'' else ''range'')
         \<and> final_regime (combine [(tf1, r1), (tf2, r2)]) = ''range''
         \<and> final_regime (combine [(tf1, r2), (tf2, r1)]) = ''range''"
proof -
  have len: "length (filter (\<lambda>(tf, r). regime r \<noteq> ''trend'') items)
             = length items - length (filter (\<lambda>(tf, r). regime r = ''trend'') items)"
    using sum_length_filter_compl [of "\<lambda>(tf, r). regime r = ''trend''" items]
    by (simp add: case_prod_unfold)
  have le: "length (filter (\<lambda>(tf, r). regime r = ''trend'') items) \<le> length items"
    by simp
  have f: "filter (\<lambda>x. x = ''trend'') (map (\<lambda>(tf, r). regime r) items)
           = map (\<lambda>(tf, r). regime r) (filter (\<lambda>(tf, r). regime r = ''trend'') items)"
    by (simp add: filter_map comp_def case_prod_unfold)
  have "final_regime (combine items) =
           (if length (filter (\<lambda>(tf, r). regime r = ''trend'') items)
                > length (filter (\<lambda>(tf, r). regime r \<noteq> ''trend'') items)
            then ''trend'' else ''range'')"
    unfolding combine_def Let_def f using le len by (simp del: length_filter_le, linarith)
  moreover have "final_regime (combine [(tf1, r1), (tf2, r2)]) = ''range''"
    using assms by (simp add: combine_def)
  moreover have "final_regime (combine [(tf1, r2), (tf2, r1)]) = ''range''"
    using assms by (simp add: combine_def)
  ultimately show ?thesis by simp
qed

theorem combine_majority_ties_to_range_witness:
  "final_regime
     (combine [(''1m'', \<lparr>regime = ''trend'', volatility_state = ''low'', slope = 0.001, vol = 0.01\<rparr>),
               (''5m'', \<lparr>regime = ''range'', volatility_state = ''low'', slope = 0, vol = 0.01\<rparr>)])
     = ''range''"
  using combine_majority_ties_to_range
     [of "\<lparr>regime = ''trend'', volatility_state = ''low'', slope = 0.001, vol = 0.01\<rparr>"
         "\<lparr>regime = ''range'', volatility_state = ''low'', slope = 0, vol = 0.01\<rparr>"
         "[]" "''1m''" "''5m''"]
  by simp

section \<open>The behaviour guard\<close>

lemma get_or_create_daily_lookup:
  "snd (get_or_create_daily d uid dy) k =
     (if k = (uid, dy) then Some (fst (get_or_create_daily d uid dy)) else d k)"
  by (auto simp: get_or_create_daily_def Let_def split: option.splits)

lemma get_or_create_daily_row:
  "fst (get_or_create_daily d uid dy) = (case d (uid, dy) of Some row \<Rightarrow> row | None \<Rightarrow> new_daily uid dy)"
  by (simp add: get_or_create_daily_def Let_def split: option.splits)

lemma check_table: "snd (check cfg d uid now) = snd (get_or_create_daily d uid (date now))"
  by (simp add: check_def Let_def case_prod_unfold split: option.splits)


lemma update_on_trade_close_lookup:
  "update_on_trade_close cfg d uid pnl now k =
     (if k = (uid, date now)
      then (let ds = fst (get_or_create_daily d uid (date now));
                cl = (if pnl > 0 then 0 else consecutive_losses ds + 1)
            in Some (ds\<lparr>trades_count := trades_count ds + 1,
                        realized_pnl := realized_pnl ds + pnl,
                        wins := (if pnl > 0 then wins ds + 1 else wins ds),
                        losses := (if pnl > 0 then losses ds else losses ds + 1),
                        consecutive_losses := cl,
                        DailyStat.cooldown_until :=
                          (if cl \<ge> 2 then Some (now + timedelta_minutes (cooldown_minutes_after_two_losses cfg))
                           else DailyStat.cooldown_until ds)\<rparr>))
      else d k)"
  by (auto simp: update_on_trade_close_def Let_def case_prod_unfold get_or_create_daily_lookup)

lemma new_daily_counts:
  "trades_count (new_daily uid dy) = 0 \<and> wins (new_daily uid dy) = 0 \<and> losses (new_daily uid dy) = 0"
  by (simp add: new_daily_def)

lemma reachable_inv:
  "reachable cfg d \<Longrightarrow> d k = Some ds \<Longrightarrow> trades_count ds = wins ds + losses ds"
proof (induction arbitrary: k ds rule: reachable.induct)
  case start
  then show ?case by simp
next
  case (checked d uid now)
  then show ?case
    by (auto simp: check_table get_or_create_daily_lookup get_or_create_daily_row new_daily_def
             split: if_splits option.splits)
next
  case (closed d uid pnl now)
  then show ?case
    by (auto simp: update_on_trade_close_lookup get_or_create_daily_row new_daily_def Let_def
             split: if_splits option.splits)
next
  case (reported d uid dy)
  then show ?case
    by (auto simp: get_or_create_daily_lookup get_or_create_daily_row new_daily_def
             split: if_splits option.splits)
qed


text \<open>
  C10. Every row of \<^verbatim>\<open>daily_stats\<close> satisfies \<open>trades_count = wins + losses\<close>: a new row has
  all three counters at 0, and closing a trade adds 1 to \<open>trades_count\<close> and 1 to exactly one of
  \<open>wins\<close> and \<open>losses\<close> of today's row (\<open>before\<close> is that row as the update finds or creates
  it).
\<close>

theorem daily_stat_counts_invariant:
  fixes cfg :: settings and d :: db and uid :: string and now :: datetime
  assumes "reachable cfg d" and "d k = Some ds"
  defines "before \<equiv> fst (get_or_create_daily d uid (date now))"
  shows "trades_count ds = wins ds + losses ds
       \<and> trades_count (new_daily uid dy) = 0 \<and> wins (new_daily uid dy) = 0
       \<and> losses (new_daily uid dy) = 0
       \<and> (\<exists>after. update_on_trade_close cfg d uid pnl now (uid, date now) = Some after
             \<and> trades_count after = trades_count before + 1
             \<and> (wins after = wins before + 1 \<and> losses after = losses before
                 \<or> wins after = wins before \<and> losses after = losses before + 1)
             \<and> trades_count after = wins after + losses after)"
proof -
  have inv: "trades_count ds = wins ds + losses ds"
    using assms(1,2) by (rule reachable_inv)
  have "reachable cfg (snd (get_or_create_daily d uid (date now)))"
    using assms(1) by (rule reachable.reported)
  moreover have "snd (get_or_create_daily d uid (date now)) (uid, date now) = Some before"
    by (simp add: get_or_create_daily_lookup before_def)
  ultimately have b: "trades_count before = wins before + losses before"
    by (rule reachable_inv)
  have step: "\<exists>after. update_on_trade_close cfg d uid pnl now (uid, date now) = Some after
             \<and> trades_count after = trades_count before + 1
             \<and> (wins after = wins before + 1 \<and> losses after = losses before
                 \<or> wins after = wins before \<and> losses after = losses before + 1)
             \<and> trades_count after = wins after + losses after"
    using b by (simp add: update_on_trade_close_lookup before_def Let_def)
  show ?thesis using inv step by (simp add: new_daily_def)
qed

theorem daily_stat_counts_invariant_witness:
  "reachable example_settings (update_on_trade_close example_settings (\<lambda>k. None) ''u'' (- 5) 0)
   \<and> update_on_trade_close example_settings (\<lambda>k. None) ''u'' (- 5) 0 (''u'', 0)
       = Some \<lparr>user_id = ''u'', day = 0, trades_count = 1, wins = 0, losses = 1,
               realized_pnl = - 5, consecutive_losses = 1, cooldown_until = None\<rparr>
   \<and> (\<exists>after. update_on_trade_close example_settings
                 (update_on_trade_close example_settings (\<lambda>k. None) ''u'' (- 5) 0) ''u'' 7 1 (''u'', 0)
               = Some after \<and> trades_count after = 2 \<and> wins after = 1 \<and> losses after = 1)"
proof -
  let ?d = "update_on_trade_close example_settings (\<lambda>k. None) ''u'' (- 5) 0"
  let ?row = "\<lparr>user_id = ''u'', day = 0, trades_count = 1, wins = 0, losses = 1,
               realized_pnl = - 5, consecutive_losses = 1, DailyStat.cooldown_until = None\<rparr>"
  have r: "reachable example_settings ?d"
    by (rule reachable.closed [OF reachable.start])
  have l: "?d (''u'', 0) = Some ?row"
    by (simp add: update_on_trade_close_lookup get_or_create_daily_row new_daily_def date_def)
  have a: "\<exists>after. update_on_trade_close example_settings ?d ''u'' 7 1 (''u'', 0) = Some after
              \<and> trades_count after = 2 \<and> wins after = 1 \<and> losses after = 1"
    by (simp add: update_on_trade_close_lookup [of _ ?d] get_or_create_daily_row l date_def Let_def)
  show ?thesis
    using daily_stat_counts_invariant [OF r l, where uid = "''u''" and now = 1 and dy = 0 and pnl = 7] r l a
    by simp
qed

lemma check_result:
  "fst (check cfg d uid now) =
     (let ds = fst (get_or_create_daily d uid (date now))
      in case (case DailyStat.cooldown_until ds of
                 Some cu \<Rightarrow> if now < cu then Some cu else None | None \<Rightarrow> None) of
           Some cu \<Rightarrow>
             \<lparr>allowed = False,
              reasons = [[Str ''Cooldown active until '', IsoTime cu, Str ''Z.'']],
              suggested_actions = [[Str ''Wait out the cooldown. Review last two trades.'']],
              cooldown_until = Some cu\<rparr>
         | None \<Rightarrow>
             if trades_count ds \<ge> max_trades_per_day cfg then
               \<lparr>allowed = False,
                reasons = [[Str ''Max trades/day reached ('', Num (trades_count ds), Str ''/'',
                            Num (max_trades_per_day cfg), Str '').'']],
                suggested_actions = [[Str ''Stop trading for today. Review performance.'']],
                cooldown_until = None\<rparr>
             else \<lparr>allowed = True, reasons = [], suggested_actions = [],
                   cooldown_until = None\<rparr>)"
  by (simp add: check_def Let_def case_prod_unfold split: option.splits)

text \<open>
  C5. Starting from a fresh row for the day, two losing closes on the same day leave
  \<open>cooldown_until\<close> at the time of the second close plus the configured cooldown (the first
  alone sets no cooldown); \<^verbatim>\<open>check\<close> at the instant of the second close then refuses and
  returns that \<open>cooldown_until\<close>; a later winning close puts \<open>consecutive_losses\<close> back to 0.
  The configured cooldown is a positive number of minutes.
\<close>

theorem two_losses_start_cooldown:
  fixes cfg :: settings and d :: db and uid :: string and t1 t2 t3 :: datetime
    and pnl1 pnl2 pnl3 :: real
  assumes fresh: "fst (get_or_create_daily d uid (date t1)) = new_daily uid (date t1)"
    and same_day: "date t2 = date t1"
    and loss1: "pnl1 \<le> 0" and loss2: "pnl2 \<le> 0"
    and cooldown: "0 < cooldown_minutes_after_two_losses cfg"
    and win: "0 < pnl3"
  defines "d1 \<equiv> update_on_trade_close cfg d uid pnl1 t1"
  defines "d2 \<equiv> update_on_trade_close cfg d1 uid pnl2 t2"
  defines "until \<equiv> t2 + timedelta_minutes (cooldown_minutes_after_two_losses cfg)"
  shows "(\<exists>ds. d1 (uid, date t1) = Some ds \<and> consecutive_losses ds = 1
               \<and> DailyStat.cooldown_until ds = None)
       \<and> (\<exists>ds. d2 (uid, date t2) = Some ds \<and> consecutive_losses ds = 2
               \<and> DailyStat.cooldown_until ds = Some until)
       \<and> allowed (fst (check cfg d2 uid t2)) = False
       \<and> BehaviorResult.cooldown_until (fst (check cfg d2 uid t2)) = Some until
       \<and> (\<exists>ds. update_on_trade_close cfg d2 uid pnl3 t3 (uid, date t3) = Some ds
               \<and> consecutive_losses ds = 0)"
proof -
  let ?row1 = "(new_daily uid (date t1))\<lparr>trades_count := 1, realized_pnl := pnl1, losses := 1,
                 consecutive_losses := 1\<rparr>"
  have r1: "d1 (uid, date t1) = Some ?row1"
    using loss1 fresh by (simp add: d1_def update_on_trade_close_lookup Let_def new_daily_def)
  have g1: "fst (get_or_create_daily d1 uid (date t1)) = ?row1"
    using r1 by (simp add: get_or_create_daily_row)
  let ?row2 = "(new_daily uid (date t1))\<lparr>trades_count := 2, realized_pnl := pnl1 + pnl2,
                 losses := 2, consecutive_losses := 2, DailyStat.cooldown_until := Some until\<rparr>"
  have r2: "d2 (uid, date t2) = Some ?row2"
    using loss2 g1 same_day
    by (simp add: d2_def update_on_trade_close_lookup Let_def new_daily_def until_def)
  have g2: "fst (get_or_create_daily d2 uid (date t2)) = ?row2"
    using r2 by (simp add: get_or_create_daily_row)
  have lt: "t2 < until"
    using cooldown by (simp add: until_def timedelta_minutes_def)
  have c: "allowed (fst (check cfg d2 uid t2)) = False
           \<and> BehaviorResult.cooldown_until (fst (check cfg d2 uid t2)) = Some until"
    using lt by (simp add: check_result g2 new_daily_def)
  have w: "\<exists>ds. update_on_trade_close cfg d2 uid pnl3 t3 (uid, date t3) = Some ds
               \<and> consecutive_losses ds = 0"
    using win by (simp add: update_on_trade_close_lookup [of cfg d2] Let_def)
  show ?thesis using r1 r2 c w by (simp add: new_daily_def)
qed

theorem two_losses_start_cooldown_witness:
  "allowed (fst (check example_settings
       (update_on_trade_close example_settings
          (update_on_trade_close example_settings (\<lambda>k. None) ''u'' (- 5) 100) ''u'' (- 3) 200)
       ''u'' 200)) = False
   \<and> BehaviorResult.cooldown_until (fst (check example_settings
       (update_on_trade_close example_settings
          (update_on_trade_close example_settings (\<lambda>k. None) ''u'' (- 5) 100) ''u'' (- 3) 200)
       ''u'' 200)) = Some 1800000200"
  using two_losses_start_cooldown [of "\<lambda>k. None" "''u''" 100 200 "- 5" "- 3" example_settings 7 300]
  by (simp add: get_or_create_daily_row date_def example_settings_def timedelta_minutes_def)

section \<open>The decision pipeline\<close>

lemma np_quantile_Inl:
  "(np_quantile a q = Inl e) = (\<not> (0 \<le> q \<and> q \<le> 1) \<and> e = ValueError)"
  by (auto simp: np_quantile_def Let_def)

lemma classify_ok:
  assumes "0 \<le> high_vol_percentile_threshold cfg" and "high_vol_percentile_threshold cfg \<le> 1"
  shows "\<exists>r. classify cfg df = Inr r"
  unfolding classify_def Let_def using assms
  by (simp add: np_quantile_Inl split: sum.splits)

lemma classify_all_ok:
  assumes "0 \<le> high_vol_percentile_threshold cfg" and "high_vol_percentile_threshold cfg \<le> 1"
  shows "\<exists>items. classify_all cfg cs = Inr items \<and> length items = length cs"
proof (induction cs)
  case Nil
  show ?case by simp
next
  case (Cons a cs)
  obtain tf df where a: "a = (tf, df)" by (cases a)
  obtain r where r: "classify cfg df = Inr r" using classify_ok [OF assms] by blast
  from Cons obtain items where "classify_all cfg cs = Inr items" "length items = length cs" by blast
  then show ?case by (simp add: a r)
qed

lemma check_trade_call_blocked:
  assumes "classify_all cfg cs = Inr items" and "\<not> allowed (fst (check cfg d uid now))"
  shows "fst (check_trade_call cfg d cs uid symbol strategy equity intended stop timeframe sess now) =
     Inr \<lparr>kw_decision = ''BLOCK'', kw_quality_score = 0,
          kw_risk_pct = final_risk_pct (compute cfg equity intended stop (final_volatility (combine items)))
                     * risk_multiplier sess,
          kw_position_size_usd = RiskResult.position_size_usd
                     (compute cfg equity intended stop (final_volatility (combine items))),
          kw_reasons = BehaviorResult.reasons (fst (check cfg d uid now))
                    @ RiskResult.reasons (compute cfg equity intended stop (final_volatility (combine items))),
          kw_suggested_actions = BehaviorResult.suggested_actions (fst (check cfg d uid now))
                    @ [[Str ''Switch to paper review mode.'']],
          kw_market_regime = regime_label (combine items),
          kw_volatility_state = final_volatility (combine items),
          kw_session_name = None, kw_session_confidence = None\<rparr>"
  using assms by (simp add: check_trade_call_def Let_def case_prod_unfold)

lemma check_trade_call_allowed:
  assumes "classify_all cfg cs = Inr items" and "allowed (fst (check cfg d uid now))"
    and "0.55 \<le> fst (strategy_fit_score (final_regime (combine items)) (final_volatility (combine items)) strategy)"
  shows "\<exists>rs sug. fst (check_trade_call cfg d cs uid symbol strategy equity intended stop timeframe sess now) =
     Inr \<lparr>kw_decision = ''ALLOW'',
          kw_quality_score = fst (strategy_fit_score (final_regime (combine items)) (final_volatility (combine items)) strategy),
          kw_risk_pct = final_risk_pct (compute cfg equity intended stop (final_volatility (combine items)))
                     * risk_multiplier sess,
          kw_position_size_usd = RiskResult.position_size_usd
                     (compute cfg equity intended stop (final_volatility (combine items))),
          kw_reasons = rs, kw_suggested_actions = sug,
          kw_market_regime = regime_label (combine items),
          kw_volatility_state = final_volatility (combine items),
          kw_session_name = None, kw_session_confidence = None\<rparr>"
  using assms by (simp add: check_trade_call_def Let_def case_prod_unfold)

lemma combine_final_regime_lower: "final_regime (combine items) \<noteq> ''RANGE''"
  unfolding combine_def Let_def MultiTFRegime.select_convs by simp

lemma combine_final_volatility_cases:
  "final_volatility (combine items) = ''high'' \<or> final_volatility (combine items) = ''low''"
  unfolding combine_def Let_def MultiTFRegime.select_convs by simp

lemma fit_score_of_combine:
  "fst (strategy_fit_score (final_regime (combine items)) (final_volatility (combine items)) s)
     = (if final_volatility (combine items) = ''high'' then 0.85 else 0.9)"
proof -
  have "fst (strategy_fit_score (final_regime (combine items)) (final_volatility (combine items)) s)
        = (if final_volatility (combine items) = ''high'' then 0.85
           else if final_volatility (combine items) = ''low'' then 0.9 else 1)"
    by (rule fit_score_not_RANGE [OF combine_final_regime_lower])
  then show ?thesis
    using combine_final_volatility_cases [of items] by presburger
qed

lemma compute_risk_pct:
  "final_risk_pct (compute cfg equity intended stop v) =
     (if v = ''high'' then min (min intended (max_risk_per_trade_pct cfg)) 0.5
      else min intended (max_risk_per_trade_pct cfg))"
  unfolding compute_def Let_def RiskResult.select_convs by simp

lemma compute_position_size:
  "RiskResult.position_size_usd (compute cfg equity intended stop v) =
     equity * (final_risk_pct (compute cfg equity intended stop v) / 100) / (max stop 0.05 / 100)"
  unfolding compute_def Let_def RiskResult.select_convs by simp

text \<open>
  Whatever branch is taken, the call that the pipeline reaches carries the sizer's position
  size, the sizer's risk times the session multiplier and a quality score in \<open>[0, 1]\<close>, and it
  passes neither \<open>session_name\<close> nor \<open>session_confidence\<close>.
\<close>

lemma check_trade_call_fields:
  assumes items: "classify_all cfg cs = Inr items"
  shows "\<exists>call. fst (check_trade_call cfg d cs uid symbol strategy equity intended stop timeframe sess now)
                  = Inr call
       \<and> kw_risk_pct call = final_risk_pct (compute cfg equity intended stop (final_volatility (combine items)))
                             * risk_multiplier sess
       \<and> kw_position_size_usd call = RiskResult.position_size_usd
                             (compute cfg equity intended stop (final_volatility (combine items)))
       \<and> 0 \<le> kw_quality_score call \<and> kw_quality_score call \<le> 1
       \<and> kw_decision call \<noteq> ''WARN''
       \<and> kw_session_name call = None \<and> kw_session_confidence call = None"
proof (cases "allowed (fst (check cfg d uid now))")
  case True
  let ?q = "fst (strategy_fit_score (final_regime (combine items))
                   (final_volatility (combine items)) strategy)"
  have q: "?q = (if final_volatility (combine items) = ''high'' then 0.85 else 0.9)"
    by (rule fit_score_of_combine)
  have "0.55 \<le> ?q" by (simp add: q)
  from check_trade_call_allowed [OF items True this, of symbol equity intended stop timeframe sess]
  obtain call where
    "fst (check_trade_call cfg d cs uid symbol strategy equity intended stop timeframe sess now) = Inr call"
    "kw_quality_score call = ?q"
    "kw_decision call = ''ALLOW''"
    "kw_risk_pct call = final_risk_pct (compute cfg equity intended stop (final_volatility (combine items)))
                        * risk_multiplier sess"
    "kw_position_size_usd call = RiskResult.position_size_usd
                        (compute cfg equity intended stop (final_volatility (combine items)))"
    "kw_session_name call = None" "kw_session_confidence call = None"
    by force
  then show ?thesis using q by auto
next
  case False
  show ?thesis
    by (simp add: check_trade_call_blocked [OF items False])
qed

text \<open>
  So the pipeline raises \<^verbatim>\<open>TypeError\<close> whenever the classification of every timeframe
  succeeds: it never returns a decision.
\<close>

lemma check_trade_raises:
  assumes items: "classify_all cfg cs = Inr items"
  shows "fst (check_trade cfg d cs uid symbol strategy equity intended stop timeframe sess now)
         = Inl TypeError"
proof -
  obtain call where
    "fst (check_trade_call cfg d cs uid symbol strategy equity intended stop timeframe sess now)
       = Inr call"
    "kw_session_name call = None"
    using check_trade_call_fields [OF items, of d uid symbol strategy equity intended stop
            timeframe sess now]
    by blast
  then show ?thesis
    by (simp add: check_trade_def case_prod_unfold DecisionResult_init_def)
qed

lemma classify_single:
  "classify cfg [c] = Inr \<lparr>regime = (if 0 \<ge> trend_slope_threshold cfg then ''trend'' else ''range''),
                            volatility_state = ''low'', slope = 0, vol = 0\<rparr>"
  by (simp add: classify_def Let_def lastn_def np_diff_def mean_def)


lemma classify_all_example:
  "classify_all example_settings [(''1m'', [flat_candle 100])]
     = Inr [(''1m'', \<lparr>regime = ''range'', volatility_state = ''low'', slope = 0, vol = 0\<rparr>)]"
  by (simp add: classify_single example_settings_def)

text \<open>
  C3. Whenever the behaviour check allows trading, the fit score that the pipeline computes
  for the consensus regime and volatility is \<open>0.85\<close> for High and \<open>0.90\<close> for Low volatility,
  since the regime never equals \<^verbatim>\<open>"RANGE"\<close>; the branch reached is then the one that decides
  ALLOW, neither block on the quality score nor the downgrade to WARN. No call returns WARN:
  the call reached never carries it, and making the call raises (see \<open>check_trade_raises\<close>).
  The classification succeeds whenever the configured percentile lies in \<open>[0, 1]\<close>.
\<close>

theorem never_warn_when_allowed:
  fixes cfg :: settings and d :: db
  assumes "0 \<le> high_vol_percentile_threshold cfg" and "high_vol_percentile_threshold cfg \<le> 1"
  shows "\<exists>items call.
           classify_all cfg candles_by_tf = Inr items
         \<and> fst (check_trade_call cfg d candles_by_tf uid symbol strategy account_equity
                  intended_risk_pct stop_distance_pct timeframe sess now) = Inr call
         \<and> kw_decision call \<noteq> ''WARN''
         \<and> (allowed (fst (check cfg d uid now)) \<longrightarrow>
              kw_quality_score call = fst (strategy_fit_score (final_regime (combine items))
                                          (final_volatility (combine items)) strategy)
            \<and> kw_quality_score call
                = (if final_volatility (combine items) = ''high'' then 0.85 else 0.9)
            \<and> 0.85 \<le> kw_quality_score call
            \<and> kw_decision call = ''ALLOW'')
         \<and> fst (check_trade cfg d candles_by_tf uid symbol strategy account_equity
                  intended_risk_pct stop_distance_pct timeframe sess now) = Inl TypeError
         \<and> (\<forall>r. fst (check_trade cfg d candles_by_tf uid symbol strategy account_equity
                        intended_risk_pct stop_distance_pct timeframe sess now) = Inr r
                  \<longrightarrow> decision r \<noteq> ''WARN'')"
proof -
  obtain items where items: "classify_all cfg candles_by_tf = Inr items"
    using classify_all_ok [OF assms] by blast
  let ?q = "fst (strategy_fit_score (final_regime (combine items))
                   (final_volatility (combine items)) strategy)"
  have q: "?q = (if final_volatility (combine items) = ''high'' then 0.85 else 0.9)"
    by (rule fit_score_of_combine)
  have raises: "fst (check_trade cfg d candles_by_tf uid symbol strategy account_equity
                       intended_risk_pct stop_distance_pct timeframe sess now) = Inl TypeError"
    by (rule check_trade_raises [OF items])
  show ?thesis
  proof (cases "allowed (fst (check cfg d uid now))")
    case True
    have "0.55 \<le> ?q" by (simp add: q)
    from check_trade_call_allowed [OF items True this, of symbol account_equity intended_risk_pct
           stop_distance_pct timeframe sess]
    obtain call where
      "fst (check_trade_call cfg d candles_by_tf uid symbol strategy account_equity
              intended_risk_pct stop_distance_pct timeframe sess now) = Inr call"
      "kw_decision call = ''ALLOW''" "kw_quality_score call = ?q"
      by force
    then show ?thesis using items q raises by auto
  next
    case False
    show ?thesis
      using items False raises by (simp add: check_trade_call_blocked [OF items False])
  qed
qed

theorem never_warn_when_allowed_witness:
  "\<exists>call. fst (check_trade_call example_settings (\<lambda>k. None) [(''1m'', [flat_candle 100])] ''u''
                  ''BTCUSDT'' ''breakout'' 10000 2 1 ''1m'' us 0) = Inr call
      \<and> kw_decision call = ''ALLOW'' \<and> 0.85 \<le> kw_quality_score call"
proof -
  have q: "0 \<le> high_vol_percentile_threshold example_settings"
          "high_vol_percentile_threshold example_settings \<le> 1"
    by (simp_all add: example_settings_def)
  have a: "allowed (fst (check example_settings (\<lambda>k. None) ''u'' 0))"
    by (simp add: check_result get_or_create_daily_row new_daily_def example_settings_def)
  show ?thesis
    using never_warn_when_allowed [OF q, of "[(''1m'', [flat_candle 100])]" "\<lambda>k. None" "''u''"
            "''BTCUSDT''" "''breakout''" 10000 2 1 "''1m''" us 0] a
    by blast
qed



text \<open>
  C6. When the behaviour check refuses, the pipeline should return BLOCK with quality score 0.
  With today's trade count at the daily maximum the check refuses and the call reached is the
  BLOCK one with quality score 0 (\<open>check_trade_call_blocked\<close> gives all its arguments), but
  making it raises \<^verbatim>\<open>TypeError\<close>: no decision is returned.
\<close>

theorem blocked_call_raises:
  "allowed (fst (check example_settings
              [(''u'', 0) \<mapsto> (new_daily ''u'' 0)\<lparr>trades_count := 3, wins := 3\<rparr>] ''u'' 0)) = False
   \<and> fst (check_trade example_settings
            [(''u'', 0) \<mapsto> (new_daily ''u'' 0)\<lparr>trades_count := 3, wins := 3\<rparr>]
            [(''1m'', [flat_candle 100])] ''u'' ''BTCUSDT'' ''breakout'' 10000 2 1 ''1m'' us 0)
       = Inl TypeError
   \<and> map_sum id kw_decision
        (fst (check_trade_call example_settings
                [(''u'', 0) \<mapsto> (new_daily ''u'' 0)\<lparr>trades_count := 3, wins := 3\<rparr>]
                [(''1m'', [flat_candle 100])] ''u'' ''BTCUSDT'' ''breakout'' 10000 2 1 ''1m'' us 0))
       = Inr ''BLOCK''
   \<and> map_sum id kw_quality_score
        (fst (check_trade_call example_settings
                [(''u'', 0) \<mapsto> (new_daily ''u'' 0)\<lparr>trades_count := 3, wins := 3\<rparr>]
                [(''1m'', [flat_candle 100])] ''u'' ''BTCUSDT'' ''breakout'' 10000 2 1 ''1m'' us 0))
       = Inr 0"
proof -
  note c = classify_all_example
  have a: "\<not> allowed (fst (check example_settings
              [(''u'', 0) \<mapsto> (new_daily ''u'' 0)\<lparr>trades_count := 3, wins := 3\<rparr>] ''u'' 0))"
    by (simp add: check_result get_or_create_daily_row new_daily_def example_settings_def date_def)
  show ?thesis
    using a check_trade_raises [OF c, of
            "[(''u'', 0) \<mapsto> (new_daily ''u'' 0)\<lparr>trades_count := 3, wins := 3\<rparr>]"
            "''u''" "''BTCUSDT''" "''breakout''" 10000 2 1 "''1m''" us 0]
    by (simp add: check_trade_call_blocked [OF c a])
qed

lemma np_clip_bounds: "lo \<le> hi \<Longrightarrow> lo \<le> np_clip a lo hi \<and> np_clip a lo hi \<le> hi"
  by (simp add: np_clip_def)

lemma confidence_bounds: "0 \<le> confidence (combine items) \<and> confidence (combine items) \<le> 1"
  unfolding combine_def Let_def MultiTFRegime.select_convs by (rule np_clip_bounds) simp

lemma detect_multiplier: "0 \<le> risk_multiplier (detect hour)"
  by (simp add: detect_def asia_def eu_def us_def weekend_def)

lemma compute_nonneg:
  assumes "0 \<le> equity" and "0 \<le> intended" and "0 \<le> max_risk_per_trade_pct cfg"
  shows "0 \<le> final_risk_pct (compute cfg equity intended stop v)
       \<and> 0 \<le> RiskResult.position_size_usd (compute cfg equity intended stop v)"
proof -
  have r: "0 \<le> final_risk_pct (compute cfg equity intended stop v)"
    using assms by (simp add: compute_risk_pct)
  have "0 \<le> equity * (final_risk_pct (compute cfg equity intended stop v) / 100)"
    using r assms(1) by simp
  moreover have "0 < max stop 0.05 / 100" by simp
  ultimately have "0 \<le> equity * (final_risk_pct (compute cfg equity intended stop v) / 100)
                        / (max stop 0.05 / 100)"
    by (rule divide_nonneg_pos)
  then show ?thesis using r by (simp only: compute_position_size [symmetric] simp_thms)
qed

text \<open>
  The values that the pipeline computes and passes on are in range for every input with
  non-negative equity, intended risk and risk cap, and a session of \<^verbatim>\<open>detect\<close>.
\<close>

lemma check_trade_call_in_range:
  assumes items: "classify_all cfg cs = Inr items"
    and "0 \<le> equity" and "0 \<le> intended" and "0 \<le> max_risk_per_trade_pct cfg"
  shows "\<exists>call. fst (check_trade_call cfg d cs uid symbol strategy equity intended stop timeframe
                        (detect hour) now) = Inr call
       \<and> 0 \<le> kw_quality_score call \<and> kw_quality_score call \<le> 1
       \<and> 0 \<le> kw_risk_pct call \<and> 0 \<le> kw_position_size_usd call"
proof -
  let ?c = "compute cfg equity intended stop (final_volatility (combine items))"
  obtain call where call:
    "fst (check_trade_call cfg d cs uid symbol strategy equity intended stop timeframe
            (detect hour) now) = Inr call"
    "kw_risk_pct call = final_risk_pct ?c * risk_multiplier (detect hour)"
    "kw_position_size_usd call = RiskResult.position_size_usd ?c"
    "0 \<le> kw_quality_score call" "kw_quality_score call \<le> 1"
    using check_trade_call_fields [OF items, of d uid symbol strategy equity intended stop
            timeframe "detect hour" now]
    by blast
  have c: "0 \<le> final_risk_pct ?c" "0 \<le> RiskResult.position_size_usd ?c"
    using compute_nonneg [OF assms(2,3,4), of stop "final_volatility (combine items)"]
    by simp_all
  have "0 \<le> kw_risk_pct call"
    using c(1) detect_multiplier [of hour] by (simp add: call(2))
  moreover have "0 \<le> kw_position_size_usd call"
    using c(2) by (simp add: call(3))
  ultimately show ?thesis using call(1,4,5) by blast
qed


section \<open>The regime classifier on a flat series\<close>

lemma mean_replicate: "0 < n \<Longrightarrow> mean (replicate n a) = a"
  by (simp add: mean_def sum_list_replicate)

lemma sum_sq_dev_replicate: "sum_list (map (\<lambda>x. (x - m)\<^sup>2) (replicate n m)) = (0::real)"
  by (simp add: sum_list_replicate)

lemma np_std_replicate: "np_std (replicate n a) = 0"
proof (cases "n = 0")
  case True
  then show ?thesis by (simp add: np_std_def mean_def)
next
  case False
  then have m: "mean (replicate n a) = a" by (simp add: mean_replicate)
  show ?thesis
    unfolding np_std_def m by (simp add: mean_def sum_list_replicate)
qed

lemma sample_std_replicate: "sample_std (replicate n a) = 0"
proof (cases "n = 0")
  case True
  then show ?thesis by (simp add: sample_std_def mean_def)
next
  case False
  then have m: "mean (replicate n a) = a" by (simp add: mean_replicate)
  show ?thesis
    unfolding sample_std_def m by (simp add: sum_list_replicate)
qed

lemma np_diff_replicate: "np_diff (replicate n a) = replicate (n - 1) 0"
  by (simp add: np_diff_def tl_replicate zip_replicate)

lemma lastn_replicate: "0 < k \<Longrightarrow> k \<le> n \<Longrightarrow> lastn k (replicate n a) = replicate k a"
  by (simp add: lastn_def)

lemma rolling_std_replicate:
  assumes "w \<le> n"
  shows "rolling_std w (replicate n a) = replicate (Suc (n - w)) 0"
proof -
  have "map (\<lambda>i. sample_std (take w (drop i (replicate n a)))) [0 ..< Suc (n - w)]
        = map (\<lambda>i. 0) [0 ..< Suc (n - w)]"
    by (simp add: take_replicate sample_std_replicate del: upt_Suc)
  also have "\<dots> = replicate (Suc (n - w)) 0"
    by (simp add: map_replicate_const del: upt_Suc replicate_Suc)
  finally show ?thesis using assms by (simp add: rolling_std_def del: upt_Suc replicate_Suc)
qed

lemma np_quantile_replicate:
  assumes "0 \<le> q" and "q \<le> 1" and "0 < n"
  shows "np_quantile (replicate n a) q = Inr a"
proof -
  have s: "sort (replicate n a) = replicate n a"
    by (rule sort_key_id_if_sorted) (simp add: sorted_replicate)
  have "q * real (n - 1) \<le> real (n - 1)"
    using assms by (simp add: mult_left_le_one_le)
  then have "\<lfloor>q * real (n - 1)\<rfloor> \<le> int (n - 1)" by linarith
  then have lo: "nat \<lfloor>q * real (n - 1)\<rfloor> < n" using assms(3) by linarith
  have hi: "min (nat \<lfloor>q * real (n - 1)\<rfloor> + 1) (n - 1) < n" using assms(3) by simp
  show ?thesis
    using assms(1,2) lo hi by (simp add: np_quantile_def Let_def s)
qed

lemma map_const_replicate: "\<forall>x \<in> set xs. f x = k \<Longrightarrow> map f xs = replicate (length xs) k"
  by (induction xs) simp_all

lemma slope_numerator_flat:
  "sum_list (map (\<lambda>(a, b). (a - xm) * (b - l)) (zip xs (replicate n l))) = (0::real)"
proof (induction xs arbitrary: n)
  case Nil
  show ?case by simp
next
  case (Cons x xs)
  show ?case by (cases n) (simp_all add: Cons.IH)
qed


lemma classify_flat:
  assumes len: "length candles = 200"
    and flat: "\<forall>x \<in> set candles. close x = c"
    and q: "0 \<le> high_vol_percentile_threshold cfg" "high_vol_percentile_threshold cfg \<le> 1"
  shows "classify cfg candles =
           Inr \<lparr>regime = (if 0 \<ge> trend_slope_threshold cfg then ''trend'' else ''range''),
                volatility_state = ''high'', slope = 0, vol = 0\<rparr>"
proof -
  define l where "l = ln (c + 0.000000001)"
  have "\<forall>x \<in> set candles. ln (close x + 0.000000001) = l"
    using flat by (simp add: l_def)
  then have logp: "map (\<lambda>c. ln (close c + 0.000000001)) candles = replicate 200 l"
    using map_const_replicate [of candles "\<lambda>c. ln (close c + 0.000000001)" l] len by simp
  have window: "min 120 (length (replicate 200 l)) = 120" by simp
  have y: "lastn 120 (replicate 200 l) = replicate 120 l"
    by (rule lastn_replicate) simp_all
  have y_mean: "mean (replicate 120 l) = l"
    by (rule mean_replicate) simp
  have rets: "np_diff (replicate 200 l) = replicate 199 0"
    by (simp add: np_diff_replicate)
  have last_rets: "lastn 120 (replicate 199 (0::real)) = replicate 120 0"
    by (rule lastn_replicate) simp_all
  have vols: "rolling_std 30 (replicate 199 0) = replicate 170 0"
    using rolling_std_replicate [of 30 199 0] by simp
  have thr: "np_quantile (replicate 170 0) (high_vol_percentile_threshold cfg) = Inr 0"
    using np_quantile_replicate [OF q, of 170 0] by simp
  show ?thesis
    unfolding classify_def Let_def logp window y y_mean rets
    by (simp add: last_rets vols thr np_std_replicate slope_numerator_flat)
qed


text \<open>
  C2. For a series of 200 candles with one and the same positive close, the classifier returns
  regime Range, for a positive slope threshold, and volatility High, not Low: every return is 0,
  so the current volatility is 0, every rolling standard deviation is 0, their percentile is 0,
  and the comparison \<^verbatim>\<open>vol >= thr\<close> holds with equality.
\<close>

theorem flat_series_range_high:
  assumes "length candles = 200"
    and "\<forall>x \<in> set candles. close x = c" and "0 < c"
    and "0 < trend_slope_threshold cfg"
    and "0 \<le> high_vol_percentile_threshold cfg" and "high_vol_percentile_threshold cfg \<le> 1"
  shows "classify cfg candles =
           Inr \<lparr>regime = ''range'', volatility_state = ''high'', slope = 0, vol = 0\<rparr>"
  using classify_flat [OF assms(1,2,5,6)] assms(4) by simp

theorem flat_series_range_high_witness:
  "\<exists>r. classify example_settings (replicate 200 (flat_candle 100)) = Inr r
      \<and> regime r = ''range'' \<and> RegimeResult.volatility_state r = ''high''"
proof -
  have f: "\<forall>x \<in> set (replicate 200 (flat_candle 100)). close x = 100"
    by (simp add: flat_candle_def)
  have l: "length (replicate 200 (flat_candle 100)) = 200" by simp
  have s: "0 < trend_slope_threshold example_settings"
          "0 \<le> high_vol_percentile_threshold example_settings"
          "high_vol_percentile_threshold example_settings \<le> 1"
    by (simp_all add: example_settings_def)
  have p: "(0::real) < 100" by simp
  show ?thesis
    using flat_series_range_high [OF l f p s] by simp
qed

text \<open>
  The same at the example settings, for 200 closes at 100: the volatility state is
  \<^verbatim>\<open>"high"\<close>.
\<close>

theorem flat_series_example_high_volatility:
  "classify example_settings (replicate 200 (flat_candle 100)) =
     Inr \<lparr>regime = ''range'', volatility_state = ''high'', slope = 0, vol = 0\<rparr>"
proof -
  have f: "\<forall>x \<in> set (replicate 200 (flat_candle 100)). close x = 100"
    by (simp add: flat_candle_def)
  have l: "length (replicate 200 (flat_candle 100)) = 200" by simp
  have q: "0 \<le> high_vol_percentile_threshold example_settings"
          "high_vol_percentile_threshold example_settings \<le> 1"
    by (simp_all add: example_settings_def)
  show ?thesis
    using classify_flat [OF l f q] by (simp add: example_settings_def)
qed

end
